theory Spec2Isabelle
  imports Main
begin

section \<open>JavaScript values\<close>

text \<open>
  The plugin is JavaScript. Parsed JSON payloads, the object literals of the plugin and
  the values stored in the published playback state are values of one type.
  \<open>JFun f\<close> is the built-in function named \<open>f\<close> and \<open>JObjectPrototype\<close> is
  \<open>Object.prototype\<close>: a property read on an object literal that finds no own
  property continues in \<open>Object.prototype\<close>, so \<open>channels['constructor']\<close> is a function
  and not \<open>undefined\<close>. A number is a double that is a whole number (the provider reports
  whole seconds); where the program computes with numbers, the result is given exactly or
  marked as not computed.
\<close>

datatype jsval =
    JUndefined
  | JNull
  | JBool bool
  | JNum int
  | JStr string
  | JArr "jsval list"
  | JObj "(string \<times> jsval) list"
  | JFun string
  | JObjectPrototype

datatype error = TypeError

text \<open>ToBoolean, as applied by \<open>!x\<close>, \<open>x || y\<close>, \<open>x && y\<close> and \<open>if (x)\<close>.\<close>

fun truthy :: "jsval \<Rightarrow> bool" where
  "truthy JUndefined = False"
| "truthy JNull = False"
| "truthy (JBool b) = b"
| "truthy (JNum n) = (n \<noteq> 0)"
| "truthy (JStr s) = (s \<noteq> [])"
| "truthy (JArr xs) = True"
| "truthy (JObj kvs) = True"
| "truthy (JFun f) = True"
| "truthy JObjectPrototype = True"

definition js_or :: "jsval \<Rightarrow> jsval \<Rightarrow> jsval" where
  "js_or a b = (if truthy a then a else b)"

text \<open>The own properties of \<open>Object.prototype\<close>, inherited by every object literal.\<close>

definition object_prototype :: "(string \<times> jsval) list" where
  "object_prototype =
    [(''constructor'', JFun ''Object''),
     (''__defineGetter__'', JFun ''__defineGetter__''),
     (''__defineSetter__'', JFun ''__defineSetter__''),
     (''hasOwnProperty'', JFun ''hasOwnProperty''),
     (''__lookupGetter__'', JFun ''__lookupGetter__''),
     (''__lookupSetter__'', JFun ''__lookupSetter__''),
     (''isPrototypeOf'', JFun ''isPrototypeOf''),
     (''propertyIsEnumerable'', JFun ''propertyIsEnumerable''),
     (''toString'', JFun ''toString''),
     (''valueOf'', JFun ''valueOf''),
     (''__proto__'', JObjectPrototype),
     (''toLocaleString'', JFun ''toLocaleString'')]"

definition inherited :: "string \<Rightarrow> jsval" where
  "inherited k = (case map_of object_prototype k of Some v \<Rightarrow> v | None \<Rightarrow> JUndefined)"

text \<open>\<open>obj[k]\<close> on an object literal with the given own properties.\<close>

definition obj_get :: "(string \<times> jsval) list \<Rightarrow> string \<Rightarrow> jsval" where
  "obj_get kvs k = (case map_of kvs k of Some v \<Rightarrow> v | None \<Rightarrow> inherited k)"

text \<open>
  \<open>v[k]\<close> and \<open>v.k\<close>. Reading a property of \<open>undefined\<close> or \<open>null\<close> throws a TypeError.
  A function carries its \<open>name\<close>; the program reads \<open>name\<close>, \<open>shortcode\<close> and \<open>streams\<close>
  of a function and no other property. On booleans, numbers, strings and arrays it only
  reads the fixed property names of the provider's envelope (\<open>connect\<close>, \<open>data\<close>, \<open>pub\<close>,
  \<open>np\<close>, \<open>now_playing\<close>, \<open>song\<close>, \<open>duration\<close>, \<open>elapsed\<close>, \<open>title\<close>, \<open>artist\<close>, \<open>album\<close>,
  \<open>art\<close>), which none of their prototypes define: the result is \<open>undefined\<close>.
\<close>

fun js_get :: "jsval \<Rightarrow> string \<Rightarrow> error + jsval" where
  "js_get JUndefined k = Inl TypeError"
| "js_get JNull k = Inl TypeError"
| "js_get (JObj kvs) k = Inr (obj_get kvs k)"
| "js_get (JFun f) k = Inr (if k = ''name'' then JStr f else inherited k)"
| "js_get JObjectPrototype k = Inr (if k = ''__proto__'' then JNull else inherited k)"
| "js_get (JBool b) k = Inr JUndefined"
| "js_get (JNum n) k = Inr JUndefined"
| "js_get (JStr s) k = Inr JUndefined"
| "js_get (JArr xs) k = Inr JUndefined"

text \<open>Optional chaining \<open>v?.k\<close>: \<open>undefined\<close> when \<open>v\<close> is \<open>undefined\<close> or \<open>null\<close>.\<close>

definition js_get_opt :: "jsval \<Rightarrow> string \<Rightarrow> jsval" where
  "js_get_opt v k = (case js_get v k of Inl e \<Rightarrow> JUndefined | Inr x \<Rightarrow> x)"

definition bindE :: "error + 'a \<Rightarrow> ('a \<Rightarrow> error + 'b) \<Rightarrow> error + 'b" where
  "bindE m f = (case m of Inl e \<Rightarrow> Inl e | Inr x \<Rightarrow> f x)"

text \<open>
  ToString (in a template literal and in a string concatenation) and ToNumber (in a product)
  succeed on every primitive value, on a function and on \<open>Object.prototype\<close>. On an object
  they call its \<open>toString\<close> and \<open>valueOf\<close>: an own property \<open>toString\<close> of a parsed JSON
  object is never callable and the inherited \<open>valueOf\<close> returns the object itself, so the
  conversion throws a TypeError (as for \<open>{"toString": 1}\<close>); with no such own property the
  inherited \<open>toString\<close> answers. An array is converted by \<open>join\<close>, which converts its
  elements.
\<close>

fun convertible :: "jsval \<Rightarrow> bool" where
  "convertible (JArr xs) = list_all convertible xs"
| "convertible (JObj kvs) = (map_of kvs ''toString'' = None)"
| "convertible v = True"

text \<open>The conversion of an operand: the text or number it gives is not computed, the
  operand stands for it.\<close>

definition to_primitive :: "jsval \<Rightarrow> error + jsval" where
  "to_primitive v = (if convertible v then Inr v else Inl TypeError)"

section \<open>Strings\<close>

text \<open>\<open>s.startsWith(p)\<close>, \<open>s.includes(p)\<close> and \<open>s.split(c)\<close> for a one-character separator.\<close>

fun startsWith :: "string \<Rightarrow> string \<Rightarrow> bool" where
  "startsWith s [] = True"
| "startsWith [] (p # ps) = False"
| "startsWith (c # cs) (p # ps) = (c = p \<and> startsWith cs ps)"

fun includes_str :: "string \<Rightarrow> string \<Rightarrow> bool" where
  "includes_str [] p = (p = [])"
| "includes_str (c # cs) p = (startsWith (c # cs) p \<or> includes_str cs p)"

fun split_str :: "char \<Rightarrow> string \<Rightarrow> string list" where
  "split_str sep [] = [[]]"
| "split_str sep (c # cs) =
     (if c = sep then [] # split_str sep cs
      else (case split_str sep cs of [] \<Rightarrow> [[c]] | p # ps \<Rightarrow> (c # p) # ps))"

section \<open>Constants and the channel table\<close>

definition SSE_RECONNECT_DELAY_MS :: int where
  "SSE_RECONNECT_DELAY_MS = 3000"

definition SSE_MAX_RECONNECT_ATTEMPTS :: nat where
  "SSE_MAX_RECONNECT_ATTEMPTS = 10"

definition HIGH_LATENCY_DELAY_MS :: int where
  "HIGH_LATENCY_DELAY_MS = 2000"

definition SERVICE_NAME :: string where
  "SERVICE_NAME = ''motherearthradio''"

definition apiHost :: string where
  "apiHost = ''motherearth.streamserver24.com''"

definition channel_entry :: "string \<Rightarrow> string \<Rightarrow> string \<Rightarrow> string \<Rightarrow> string \<Rightarrow> jsval" where
  "channel_entry nm sc hi lo ac =
     JObj [(''name'', JStr nm), (''shortcode'', JStr sc),
           (''streams'', JObj [(''flac192'', JStr hi), (''flac96'', JStr lo), (''aac'', JStr ac)])]"

text \<open>\<open>this.channels\<close>, in the order of the literal (the order of \<open>Object.entries\<close>).\<close>

definition channels :: "(string \<times> jsval) list" where
  "channels =
    [(''radio'', channel_entry ''Radio'' ''motherearth''
        ''https://motherearth.streamserver24.com/listen/motherearth/motherearth''
        ''https://motherearth.streamserver24.com/listen/motherearth/motherearth.flac-lo''
        ''https://motherearth.streamserver24.com/listen/motherearth/motherearth.aac''),
     (''klassik'', channel_entry ''Klassik'' ''motherearth_klassik''
        ''https://motherearth.streamserver24.com/listen/motherearth_klassik/motherearth.klassik''
        ''https://motherearth.streamserver24.com/listen/motherearth_klassik/motherearth.klassik.flac-lo''
        ''https://motherearth.streamserver24.com/listen/motherearth_klassik/motherearth.klassik.aac''),
     (''instrumental'', channel_entry ''Instrumental'' ''motherearth_instrumental''
        ''https://motherearth.streamserver24.com/listen/motherearth_instrumental/motherearth.instrumental''
        ''https://motherearth.streamserver24.com/listen/motherearth_instrumental/motherearth.instrumental.flac-lo''
        ''https://motherearth.streamserver24.com/listen/motherearth_instrumental/motherearth.instrumental.aac''),
     (''jazz'', channel_entry ''Jazz'' ''motherearth_jazz''
        ''https://motherearth.streamserver24.com/listen/motherearth_jazz/motherearth.jazz''
        ''https://motherearth.streamserver24.com/listen/motherearth_jazz/motherearth.jazz.flac-lo''
        ''https://motherearth.streamserver24.com/listen/motherearth_jazz/motherearth.jazz.aac'')]"

section \<open>Helpers: channel, quality and stream URL of a URI\<close>

text \<open>
  The loop of \<open>getChannelFromUri\<close> over \<open>Object.entries(this.channels)\<close>: the first key
  whose \<open>shortcode\<close> occurs in the URI. The entries are the object literals above, whose
  \<open>shortcode\<close> is a string.
\<close>

fun shortcode_match :: "(string \<times> jsval) list \<Rightarrow> string \<Rightarrow> string option" where
  "shortcode_match [] uri = None"
| "shortcode_match ((key, channel) # rest) uri =
     (case js_get channel ''shortcode'' of
        Inr (JStr sc) \<Rightarrow> if includes_str uri sc then Some key else shortcode_match rest uri
      | _ \<Rightarrow> shortcode_match rest uri)"

text \<open>
  \<open>getChannelFromUri(uri)\<close>. A falsy \<open>uri\<close> (\<open>undefined\<close>, \<open>null\<close>, the empty string) gives
  \<open>'radio'\<close>; any other value that is not a string has no \<open>split\<close> method, and the call throws.
\<close>

definition getChannelFromUri :: "jsval \<Rightarrow> error + string" where
  "getChannelFromUri uri =
     (if \<not> truthy uri then Inr ''radio''
      else (case uri of
        JStr u \<Rightarrow>
          (let parts = split_str CHR ''/'' u in
           if hd parts = ''motherearthradio'' \<and> length parts \<ge> 2
              \<and> truthy (obj_get channels (parts ! 1))
           then Inr (parts ! 1)
           else (case shortcode_match channels u of
                   Some key \<Rightarrow> Inr key
                 | None \<Rightarrow> Inr ''radio''))
      | _ \<Rightarrow> Inl TypeError))"

definition getQualityFromUri :: "jsval \<Rightarrow> error + string" where
  "getQualityFromUri uri =
     (if \<not> truthy uri then Inr ''flac192''
      else (case uri of
        JStr u \<Rightarrow>
          (let parts = split_str CHR ''/'' u in
           if hd parts = ''motherearthradio'' \<and> length parts \<ge> 3
              \<and> parts ! 2 \<in> set [''flac192'', ''flac96'', ''aac'']
           then Inr (parts ! 2)
           else if includes_str u ''.flac-lo'' then Inr ''flac96''
           else if includes_str u ''.aac'' then Inr ''aac''
           else Inr ''flac192'')
      | _ \<Rightarrow> Inl TypeError))"

text \<open>
  \<open>getStreamUrl(channelKey, quality)\<close>: \<open>null\<close> when \<open>this.channels[channelKey]\<close> is falsy,
  else \<open>channel.streams[quality] || channel.streams.flac192\<close>, which throws when
  \<open>channel.streams\<close> is \<open>undefined\<close>.
\<close>

definition getStreamUrl :: "string \<Rightarrow> string \<Rightarrow> error + jsval" where
  "getStreamUrl channelKey quality =
     (let channel = obj_get channels channelKey in
      if \<not> truthy channel then Inr JNull
      else bindE (js_get channel ''streams'') (\<lambda>streams.
           bindE (js_get streams quality) (\<lambda>url.
           if truthy url then Inr url else js_get streams ''flac192'')))"

definition getQualityLabel :: "jsval \<Rightarrow> jsval" where
  "getQualityLabel quality =
     js_or (case quality of
              JStr q \<Rightarrow> obj_get [(''flac192'', JStr ''FLAC 192kHz/24bit''),
                                 (''flac96'', JStr ''FLAC 96kHz/24bit''),
                                 (''aac'', JStr ''AAC 96kHz'')] q
            | _ \<Rightarrow> JUndefined) quality"

definition getSampleRate :: "jsval \<Rightarrow> jsval" where
  "getSampleRate quality =
     js_or (case quality of
              JStr q \<Rightarrow> obj_get [(''flac192'', JStr ''192 kHz''),
                                 (''flac96'', JStr ''96 kHz''),
                                 (''aac'', JStr ''96 kHz'')] q
            | _ \<Rightarrow> JUndefined) (JStr '''')"

definition getBitDepth :: "jsval \<Rightarrow> jsval" where
  "getBitDepth quality =
     js_or (case quality of
              JStr q \<Rightarrow> obj_get [(''flac192'', JStr ''24 bit''),
                                 (''flac96'', JStr ''24 bit''),
                                 (''aac'', JStr '''')] q
            | _ \<Rightarrow> JUndefined) (JStr '''')"

section \<open>The plugin instance and its environment\<close>

text \<open>
  The object pushed to \<open>commandRouter.servicePushState\<close>, with the properties that the
  revisions of the plugin set (\<open>st_channels\<close> is \<open>channels\<close> and \<open>st_type\<close> is \<open>type\<close>). A
  property the object literal does not set is \<open>undefined\<close>.

  \<open>seek\<close> is \<open>elapsed * 1000\<close>, a product of doubles after ToNumber of \<open>elapsed\<close>, which
  throws where the conversion does. For a whole number whose product has a magnitude of at
  most \<open>2^53\<close> the product is exact (\<open>SeekMs\<close>); any other product is not computed and is
  written \<open>SeekDouble elapsed\<close>.
\<close>

datatype seek_val = SeekAbsent | SeekMs int | SeekDouble jsval

definition seek_of_elapsed :: "jsval \<Rightarrow> error + seek_val" where
  "seek_of_elapsed elapsed =
     (case elapsed of
        JNum n \<Rightarrow> Inr (if abs (n * 1000) \<le> 2 ^ 53 then SeekMs (n * 1000) else SeekDouble elapsed)
      | v \<Rightarrow> if convertible v then Inr (SeekDouble v) else Inl TypeError)"

record vstate =
  status :: jsval
  service :: jsval
  title :: jsval
  artist :: jsval
  album :: jsval
  albumart :: jsval
  uri :: jsval
  trackType :: jsval
  seek :: seek_val
  duration :: jsval
  samplerate :: jsval
  bitdepth :: jsval
  st_channels :: jsval
  streaming :: jsval
  isStreaming :: jsval
  random :: jsval
  repeat :: jsval
  repeatSingle :: jsval
  st_type :: jsval
  radioType :: jsval
  disableUiControls :: jsval

text \<open>The object \<open>{}\<close>. An object literal is written as the properties it sets.\<close>

definition empty_state :: vstate where
  "empty_state = \<lparr>status = JUndefined, service = JUndefined, title = JUndefined,
     artist = JUndefined, album = JUndefined, albumart = JUndefined, uri = JUndefined,
     trackType = JUndefined, seek = SeekAbsent, duration = JUndefined,
     samplerate = JUndefined, bitdepth = JUndefined, st_channels = JUndefined,
     streaming = JUndefined, isStreaming = JUndefined, random = JUndefined,
     repeat = JUndefined, repeatSingle = JUndefined, st_type = JUndefined,
     radioType = JUndefined, disableUiControls = JUndefined\<rparr>"

text \<open>The SSE URL built by \<open>startSSE\<close>: the API host and the \<open>shortcode\<close> put into the
  subscription \<open>{"subs": {"station:<shortcode>": {}}}\<close>.\<close>

datatype sse_url = SseUrl string jsval

text \<open>The callbacks given to \<open>setTimeout\<close>, with the values their closures hold.\<close>

datatype callback =
    UpdateMetadataCb jsval jsval jsval jsval
  | ConnectSSECb sse_url string

text \<open>A pending one-shot timer: its handle, the time it is due (ms) and its callback.\<close>

type_synonym timer = "nat \<times> int \<times> callback"

text \<open>
  A delay in milliseconds as \<open>getEffectiveDelay\<close> computes it: \<open>Ms n\<close> is the whole number
  \<open>n\<close>, computed exactly; \<open>Beyond\<close> is a sum above \<open>2^53\<close>, where the addition of doubles
  rounds: the double is not computed, it is at least \<open>2^53\<close>.
\<close>

datatype delay_ms = Ms int | Beyond

datatype level = LError | LWarn | LInfo | LDebug | LConsole

datatype message =
    MsgUnknownChannel string
  | MsgStartingSSE jsval
  | MsgSseUrl sse_url
  | MsgSseFailed int
  | MsgSseConnected
  | MsgSseClosed
  | MsgSseError
  | MsgSseRequestError
  | MsgConnectReceived
  | MsgTrackUpdate jsval jsval
  | MsgApplyingDelay delay_ms
  | MsgMaxReconnect
  | MsgReconnecting int nat
  | MsgSseStopped
  | MsgUnknownChannelQuality jsval
  | MsgPlaying string string jsval
  | MsgAddingTrack jsval
  | MsgFailedToPlay jsval

text \<open>The commands sent to the MPD plugin; \<open>MpdAdd url\<close> is \<open>'add "' + url + '"'\<close> and
  \<open>MpdPluginStop\<close> is \<open>mpdPlugin.stop()\<close>.\<close>

datatype mpd_cmd = MpdStop | MpdClear | MpdAdd jsval | MpdPlay | MpdPluginStop

text \<open>How a call of the plugin settles: its promise resolves, rejects with a reason or
  is never settled, or the call throws before returning a promise.\<close>

datatype outcome = Resolved | Rejected jsval | Pending | Thrown error

text \<open>
  The calls the plugin makes on its collaborators: an HTTPS request opened for an SSE URL
  and destroyed (by its number), a command sent to MPD, a state pushed to the front-end and
  a toast shown.
\<close>

datatype effect =
    Opened sse_url string
  | Destroyed nat
  | Sent mpd_cmd
  | Pushed vstate
  | Toasted string string

text \<open>
  The fields of the instance, followed by the environment it acts on: the clock and the
  pending timers, the HTTPS requests opened and destroyed, what has been pushed to the
  front-end, shown as a toast, sent to MPD and logged, and \<open>trace\<close>, which holds all these
  calls but the log lines in the one order they were made in.
\<close>

record plugin =
  state :: vstate
  currentUri :: jsval
  currentChannel :: "string option"
  currentQuality :: "string option"
  sseRequest :: "nat option"
  sseReconnectAttempts :: nat
  sseReconnectTimer :: "nat option"
  metadataDelay :: int
  highLatencyMode :: bool
  clock :: int
  timers :: "timer list"
  nextTimer :: nat
  requests :: "(sse_url \<times> string) list"
  destroyed :: "nat list"
  pushed :: "vstate list"
  toasts :: "(string \<times> string) list"
  mpdLog :: "mpd_cmd list"
  logs :: "(level \<times> message) list"
  trace :: "effect list"

text \<open>The instance after the constructor, with nothing pending in the environment.\<close>

definition constructor :: plugin where
  "constructor = \<lparr>state = empty_state, currentUri = JNull, currentChannel = None,
     currentQuality = None, sseRequest = None, sseReconnectAttempts = 0,
     sseReconnectTimer = None, metadataDelay = 0, highLatencyMode = False,
     clock = 0, timers = [], nextTimer = 0, requests = [], destroyed = [],
     pushed = [], toasts = [], mpdLog = [], logs = [], trace = []\<rparr>"

text \<open>A field that is \<open>null\<close> or a string, as a value and as a property key.\<close>

definition opt_js :: "string option \<Rightarrow> jsval" where
  "opt_js x = (case x of None \<Rightarrow> JNull | Some s \<Rightarrow> JStr s)"

definition opt_key :: "string option \<Rightarrow> string" where
  "opt_key x = (case x of None \<Rightarrow> ''null'' | Some s \<Rightarrow> s)"

definition log :: "level \<Rightarrow> message \<Rightarrow> plugin \<Rightarrow> plugin" where
  "log lvl m s = s\<lparr>logs := logs s @ [(lvl, m)]\<rparr>"

definition errorToast :: "string \<Rightarrow> plugin \<Rightarrow> plugin" where
  "errorToast messageKey s =
     s\<lparr>toasts := toasts s @ [(''error'', messageKey)],
       trace := trace s @ [Toasted ''error'' messageKey]\<rparr>"

definition servicePushState :: "vstate \<Rightarrow> plugin \<Rightarrow> plugin" where
  "servicePushState st s = s\<lparr>pushed := pushed s @ [st], trace := trace s @ [Pushed st]\<rparr>"

text \<open>
  \<open>setTimeout(cb, delay)\<close> returns the handle of the new timer. Node takes a delay that is
  below 1 or above \<open>TIMEOUT_MAX = 2^31 - 1\<close> as 1 ms. \<open>clearTimeout\<close> of a timer that has
  fired or been cleared does nothing.
\<close>

definition TIMEOUT_MAX :: int where
  "TIMEOUT_MAX = 2147483647"

definition timer_delay :: "delay_ms \<Rightarrow> int" where
  "timer_delay delay =
     (case delay of
        Ms n \<Rightarrow> if 1 \<le> n \<and> n \<le> TIMEOUT_MAX then n else 1
      | Beyond \<Rightarrow> 1)"

definition setTimeout :: "callback \<Rightarrow> delay_ms \<Rightarrow> plugin \<Rightarrow> nat \<times> plugin" where
  "setTimeout cb delay s =
     (nextTimer s,
      s\<lparr>timers := timers s @ [(nextTimer s, clock s + timer_delay delay, cb)],
        nextTimer := Suc (nextTimer s)\<rparr>)"

definition clearTimeout :: "nat \<Rightarrow> plugin \<Rightarrow> plugin" where
  "clearTimeout h s = s\<lparr>timers := filter (\<lambda>t. fst t \<noteq> h) (timers s)\<rparr>"

section \<open>Delay scheduler\<close>

text \<open>
  \<open>getEffectiveDelay()\<close>: \<open>this.metadataDelay || 0\<close>, plus \<open>HIGH_LATENCY_DELAY_MS\<close> in
  high-latency mode, and \<open>Math.max(0, delay)\<close>. The field \<open>metadataDelay\<close> holds a whole
  number. The sum is a sum of doubles: it is exact up to \<open>2^53\<close>; a sum that is not positive
  gives 0 whatever its rounding, and a sum above \<open>2^53\<close> is \<open>Beyond\<close>.
\<close>

definition getEffectiveDelay :: "plugin \<Rightarrow> delay_ms" where
  "getEffectiveDelay s =
     (let delay = (if metadataDelay s \<noteq> 0 then metadataDelay s else 0) in
      if highLatencyMode s then
        (if delay + HIGH_LATENCY_DELAY_MS \<le> 2 ^ 53
         then Ms (max 0 (delay + HIGH_LATENCY_DELAY_MS)) else Beyond)
      else Ms (max 0 delay))"

text \<open>The test \<open>delay > 0\<close>.\<close>

definition positive :: "delay_ms \<Rightarrow> bool" where
  "positive delay = (case delay of Ms n \<Rightarrow> 0 < n | Beyond \<Rightarrow> True)"

text \<open>
  \<open>updateMetadata(song, duration, elapsed, np)\<close>: nothing when
  \<open>this.channels[this.currentChannel]\<close> is falsy; else the new state is stored and pushed.
  The product \<open>elapsed * 1000\<close> in the object literal may throw.
\<close>

definition updateMetadata :: "jsval \<Rightarrow> jsval \<Rightarrow> jsval \<Rightarrow> jsval \<Rightarrow> plugin \<Rightarrow> error + plugin" where
  "updateMetadata song dur elapsed np s =
     (let channel = obj_get channels (opt_key (currentChannel s)) in
      if \<not> truthy channel then Inr s
      else
        let qualityLabel = getQualityLabel (opt_js (currentQuality s));
            samplerate = getSampleRate (opt_js (currentQuality s));
            bitdepth = getBitDepth (opt_js (currentQuality s))
        in
        bindE (js_get song ''title'') (\<lambda>song_title.
        bindE (js_get song ''artist'') (\<lambda>song_artist.
        bindE (js_get channel ''name'') (\<lambda>channel_name.
        bindE (js_get song ''album'') (\<lambda>song_album.
        bindE (js_get song ''art'') (\<lambda>song_art.
        bindE (seek_of_elapsed elapsed) (\<lambda>seek_ms.
          let st = empty_state\<lparr>status := JStr ''play'',
                    service := JStr SERVICE_NAME,
                    title := js_or song_title (JStr ''Unknown''),
                    artist := js_or song_artist channel_name,
                    album := js_or song_album qualityLabel,
                    albumart := js_or song_art (JStr
                      ''/albumart?sourceicon=music_service/motherearthradio/motherearthlogo.svg''),
                    uri := currentUri s,
                    trackType := (if currentQuality s = Some ''aac'' then JStr ''aac''
                                  else JStr ''flac''),
                    seek := seek_ms,
                    duration := dur,
                    samplerate := samplerate,
                    bitdepth := bitdepth,
                    st_channels := JNum 2,
                    streaming := JBool True,
                    isStreaming := JBool True\<rparr>
          in Inr (servicePushState st (s\<lparr>state := st\<rparr>)))))))))"

text \<open>
  \<open>processNowPlayingData(data, channelKey)\<close>. The parameter \<open>channelKey\<close> is not read.
  The template literal of the \<open>Track update\<close> log line converts \<open>song.artist\<close> and
  \<open>song.title\<close> to strings, which may throw before anything is scheduled. With a positive
  delay the update is a new timer; it is applied at once otherwise.
\<close>

definition processNowPlayingData :: "jsval \<Rightarrow> string \<Rightarrow> plugin \<Rightarrow> error + plugin" where
  "processNowPlayingData data channelKey s =
     (let np = js_or (js_get_opt (js_get_opt (js_get_opt data ''pub'') ''data'') ''np'')
                     (js_get_opt data ''np'') in
      if \<not> truthy np then Inr s
      else
        bindE (js_get np ''now_playing'') (\<lambda>now_playing.
        if \<not> truthy now_playing then Inr s
        else
          bindE (js_get now_playing ''song'') (\<lambda>song.
          bindE (js_get now_playing ''duration'') (\<lambda>d.
          bindE (js_get now_playing ''elapsed'') (\<lambda>e.
            let dur = js_or d (JNum 0);
                elapsed = js_or e (JNum 0)
            in
            if \<not> truthy song then Inr s
            else
              bindE (js_get song ''artist'') (\<lambda>song_artist.
              bindE (to_primitive song_artist) (\<lambda>artist_text.
              bindE (js_get song ''title'') (\<lambda>song_title.
              bindE (to_primitive song_title) (\<lambda>title_text.
                let s1 = log LInfo (MsgTrackUpdate artist_text title_text) s;
                    delay = getEffectiveDelay s1
                in
                if positive delay then
                  Inr (snd (setTimeout (UpdateMetadataCb song dur elapsed np) delay
                              (log LDebug (MsgApplyingDelay delay) s1)))
                else updateMetadata song dur elapsed np s1)))))))))"

section \<open>Connection manager\<close>

text \<open>\<open>connectSSE(sseUrl, channelKey)\<close> opens a request and stores its handle in
  \<open>this.sseRequest\<close>; what the request reports comes back as the events below.\<close>

definition connectSSE :: "sse_url \<Rightarrow> string \<Rightarrow> plugin \<Rightarrow> plugin" where
  "connectSSE sseUrl channelKey s =
     s\<lparr>sseRequest := Some (length (requests s)),
       requests := requests s @ [(sseUrl, channelKey)],
       trace := trace s @ [Opened sseUrl channelKey]\<rparr>"

definition scheduleSSEReconnect :: "sse_url \<Rightarrow> string \<Rightarrow> plugin \<Rightarrow> plugin" where
  "scheduleSSEReconnect sseUrl channelKey s =
     (if sseReconnectAttempts s \<ge> SSE_MAX_RECONNECT_ATTEMPTS then
        errorToast ''ERROR_STREAM_SERVER'' (log LError MsgMaxReconnect s)
      else
        let s1 = s\<lparr>sseReconnectAttempts := Suc (sseReconnectAttempts s)\<rparr>;
            delay = SSE_RECONNECT_DELAY_MS * int (sseReconnectAttempts s1);
            s2 = log LInfo (MsgReconnecting delay (sseReconnectAttempts s1)) s1;
            (h, s3) = setTimeout (ConnectSSECb sseUrl channelKey) (Ms delay) s2
        in s3\<lparr>sseReconnectTimer := Some h\<rparr>)"

text \<open>
  What a request opened by \<open>connectSSE\<close> reports to its callbacks: the response with its
  status code, the end of the response stream, an error of the response stream, an error
  of the request. The callbacks for the end and the error of the response stream are
  registered when the response has status 200, after the counter was reset: a request
  reports them after \<open>Response 200\<close> only (see \<open>reports\<close> below).
\<close>

datatype sse_event = Response int | ResponseEnd | ResponseError | RequestError

definition on_sse_event :: "sse_url \<Rightarrow> string \<Rightarrow> sse_event \<Rightarrow> plugin \<Rightarrow> plugin" where
  "on_sse_event sseUrl channelKey ev s =
     (case ev of
        Response statusCode \<Rightarrow>
          if statusCode \<noteq> 200 then
            scheduleSSEReconnect sseUrl channelKey (log LError (MsgSseFailed statusCode) s)
          else (log LInfo MsgSseConnected s)\<lparr>sseReconnectAttempts := 0\<rparr>
      | ResponseEnd \<Rightarrow> scheduleSSEReconnect sseUrl channelKey (log LWarn MsgSseClosed s)
      | ResponseError \<Rightarrow> scheduleSSEReconnect sseUrl channelKey (log LError MsgSseError s)
      | RequestError \<Rightarrow>
          scheduleSSEReconnect sseUrl channelKey (log LError MsgSseRequestError s))"

definition stopSSE :: "plugin \<Rightarrow> plugin" where
  "stopSSE s =
     (let s1 = (case sseReconnectTimer s of
                  Some h \<Rightarrow> (clearTimeout h s)\<lparr>sseReconnectTimer := None\<rparr>
                | None \<Rightarrow> s);
          s2 = (case sseRequest s1 of
                  Some r \<Rightarrow> s1\<lparr>destroyed := destroyed s1 @ [r],
                               trace := trace s1 @ [Destroyed r], sseRequest := None\<rparr>
                | None \<Rightarrow> s1)
      in log LDebug MsgSseStopped (s2\<lparr>sseReconnectAttempts := 0\<rparr>))"

text \<open>\<open>startSSE(channelKey)\<close>. The values its template literals convert to text are the
  \<open>shortcode\<close> and the \<open>name\<close> of a truthy member of the channel table: strings, or
  \<open>undefined\<close> for an inherited member.\<close>

definition startSSE :: "string \<Rightarrow> plugin \<Rightarrow> plugin" where
  "startSSE channelKey s =
     (let s1 = stopSSE s;
          channel = obj_get channels channelKey
      in
      if \<not> truthy channel then log LError (MsgUnknownChannel channelKey) s1
      else
        let sseUrl = SseUrl apiHost (js_get_opt channel ''shortcode'');
            s2 = log LInfo (MsgStartingSSE (js_get_opt channel ''name'')) s1;
            s3 = log LDebug (MsgSseUrl sseUrl) s2
        in connectSSE sseUrl channelKey s3)"

section \<open>Envelope decoder\<close>

text \<open>The loop \<open>for (const item of items) this.processNowPlayingData(item, channelKey)\<close>.\<close>

fun processItems :: "jsval list \<Rightarrow> string \<Rightarrow> plugin \<Rightarrow> error + plugin" where
  "processItems [] channelKey s = Inr s"
| "processItems (item # items) channelKey s =
     bindE (processNowPlayingData item channelKey s) (processItems items channelKey)"



section \<open>Playback control\<close>

text \<open>
  \<open>mpdPlugin.sendMpdCommand\<close> and \<open>mpdPlugin.stop\<close> are the parameter \<open>mpd\<close>: \<open>None\<close> when
  the command's promise resolves, \<open>Some err\<close> when it rejects with \<open>err\<close>. \<open>sendMpd\<close> records
  the command and gives its result.
\<close>

definition sendMpd :: "(mpd_cmd \<Rightarrow> jsval option) \<Rightarrow> mpd_cmd \<Rightarrow> plugin \<Rightarrow> jsval option \<times> plugin" where
  "sendMpd mpd c s = (mpd c, s\<lparr>mpdLog := mpdLog s @ [c], trace := trace s @ [Sent c]\<rparr>)"

text \<open>The chain \<open>stop\<close>, \<open>clear\<close>, \<open>add\<close>, \<open>play\<close>: each command is sent when the one before
  it has resolved, and the first rejection ends the chain with its reason.\<close>

fun sendAll :: "(mpd_cmd \<Rightarrow> jsval option) \<Rightarrow> mpd_cmd list \<Rightarrow> plugin \<Rightarrow> jsval option \<times> plugin" where
  "sendAll mpd [] s = (None, s)"
| "sendAll mpd (c # cs) s =
     (case sendMpd mpd c s of
        (Some err, s1) \<Rightarrow> (Some err, s1)
      | (None, s1) \<Rightarrow> sendAll mpd cs s1)"

text \<open>
  The commands of a chain that are sent, up to and with the first one that rejects, and
  the reason of that rejection.
\<close>

fun issued :: "(mpd_cmd \<Rightarrow> jsval option) \<Rightarrow> mpd_cmd list \<Rightarrow> mpd_cmd list" where
  "issued mpd [] = []"
| "issued mpd (c # cs) = c # (case mpd c of None \<Rightarrow> issued mpd cs | Some err \<Rightarrow> [])"

fun first_rejection :: "(mpd_cmd \<Rightarrow> jsval option) \<Rightarrow> mpd_cmd list \<Rightarrow> jsval option" where
  "first_rejection mpd [] = None"
| "first_rejection mpd (c # cs) =
     (case mpd c of None \<Rightarrow> first_rejection mpd cs | Some err \<Rightarrow> Some err)"

text \<open>The chain of transport commands of \<open>clearAddPlayTrack\<close>.\<close>

definition transport_sequence :: "jsval \<Rightarrow> mpd_cmd list" where
  "transport_sequence streamUrl = [MpdStop, MpdClear, MpdAdd streamUrl, MpdPlay]"

text \<open>The provisional state that \<open>clearAddPlayTrack\<close> stores and pushes when the chain
  has resolved.\<close>

definition connecting_state :: "jsval \<Rightarrow> plugin \<Rightarrow> vstate" where
  "connecting_state track_uri s =
     (let channel = obj_get channels (opt_key (currentChannel s));
          qualityLabel = getQualityLabel (opt_js (currentQuality s))
      in empty_state\<lparr>status := JStr ''play'',
           service := JStr SERVICE_NAME,
           title := js_or (js_get_opt channel ''name'') (JStr ''Mother Earth Radio''),
           artist := JStr ''Connecting...'',
           album := qualityLabel,
           albumart := JStr
             ''/albumart?sourceicon=music_service/motherearthradio/motherearthlogo.svg'',
           uri := track_uri,
           trackType := (if currentQuality s = Some ''aac'' then JStr ''aac'' else JStr ''flac''),
           streaming := JBool True,
           isStreaming := JBool True,
           samplerate := getSampleRate (opt_js (currentQuality s)),
           bitdepth := getBitDepth (opt_js (currentQuality s)),
           duration := JNum 0,
           seek := SeekMs 0\<rparr>)"

text \<open>
  \<open>clearAddPlayTrack(track)\<close>, for \<open>track.uri = track_uri\<close>. The handler of a rejected
  chain first builds the log line \<open>'Failed to play track: ' + err\<close>; when \<open>err\<close> cannot be
  converted this throws inside the handler, \<open>defer.reject\<close> is not reached and the promise
  returned to the caller is never settled.
\<close>

definition clearAddPlayTrack ::
    "(mpd_cmd \<Rightarrow> jsval option) \<Rightarrow> jsval \<Rightarrow> plugin \<Rightarrow> outcome \<times> plugin" where
  "clearAddPlayTrack mpd track_uri s =
     (let s1 = stopSSE s in
      case getChannelFromUri track_uri of
        Inl e \<Rightarrow> (Thrown e, s1)
      | Inr ch \<Rightarrow>
        let s2 = s1\<lparr>currentChannel := Some ch\<rparr> in
        (case getQualityFromUri track_uri of
           Inl e \<Rightarrow> (Thrown e, s2)
         | Inr q \<Rightarrow>
           let s3 = s2\<lparr>currentQuality := Some q, currentUri := track_uri\<rparr> in
           (case getStreamUrl ch q of
              Inl e \<Rightarrow> (Thrown e, s3)
            | Inr streamUrl \<Rightarrow>
              if \<not> truthy streamUrl then
                (Rejected (JStr ''Unknown channel''),
                 log LError (MsgUnknownChannelQuality track_uri) s3)
              else
                let s4 = log LInfo (MsgPlaying ch q streamUrl) s3;
                    s5 = startSSE ch s4;
                    s6 = log LConsole (MsgAddingTrack streamUrl) s5
                in
                (case sendAll mpd [MpdStop, MpdClear, MpdAdd streamUrl, MpdPlay] s6 of
                   (None, s7) \<Rightarrow>
                     let st = connecting_state track_uri s7 in
                     (Resolved, servicePushState st (s7\<lparr>state := st\<rparr>))
                 | (Some err, s7) \<Rightarrow>
                     if convertible err
                     then (Rejected err, log LError (MsgFailedToPlay err) s7)
                     else (Pending, s7)))))"

definition stop_state :: vstate where
  "stop_state = empty_state\<lparr>status := JStr ''stop'', service := JStr SERVICE_NAME\<rparr>"

definition stop :: "(mpd_cmd \<Rightarrow> jsval option) \<Rightarrow> plugin \<Rightarrow> outcome \<times> plugin" where
  "stop mpd s =
     (let s1 = stopSSE s;
          s2 = servicePushState stop_state (s1\<lparr>state := stop_state\<rparr>)
      in (case sendMpd mpd MpdPluginStop s2 of
            (None, s3) \<Rightarrow> (Resolved, s3)
          | (Some err, s3) \<Rightarrow> (Rejected err, s3)))"

text \<open>
  The two assignments by which \<open>onStart()\<close> loads the settings \<open>apiDelay\<close> and
  \<open>highLatencyMode\<close> of the configuration (\<open>None\<close> for a setting that is not there):
  \<open>this.metadataDelay = this.config.get('apiDelay') || 3\<close> and
  \<open>this.highLatencyMode = this.config.get('highLatencyMode') || false\<close>. The setting
  \<open>apiDelay\<close> is a whole number of seconds and is stored as it is. The rest of \<open>onStart\<close>
  (the MPD plugin, the translations, the browse source, the buffer of MPD and its log
  lines) is left out.
\<close>

definition onStart_settings :: "int option \<Rightarrow> bool option \<Rightarrow> plugin \<Rightarrow> plugin" where
  "onStart_settings apiDelay highLatency s =
     s\<lparr>metadataDelay := (case apiDelay of Some n \<Rightarrow> if n \<noteq> 0 then n else 3 | None \<Rightarrow> 3),
       highLatencyMode := (case highLatency of Some b \<Rightarrow> b | None \<Rightarrow> False)\<rparr>"

section \<open>Time\<close>

text \<open>
  The timer with handle \<open>h\<close> fires: it leaves the pending timers, the clock is at its due
  time (or later), and its callback runs. A handle that is not pending does nothing.
\<close>

definition fire :: "nat \<Rightarrow> plugin \<Rightarrow> error + plugin" where
  "fire h s =
     (case filter (\<lambda>t. fst t = h) (timers s) of
        [] \<Rightarrow> Inr s
      | (_, due, cb) # _ \<Rightarrow>
          let s1 = s\<lparr>timers := filter (\<lambda>t. fst t \<noteq> h) (timers s),
                     clock := max (clock s) due\<rparr>
          in (case cb of
                UpdateMetadataCb song dur elapsed np \<Rightarrow> updateMetadata song dur elapsed np s1
              | ConnectSSECb sseUrl channelKey \<Rightarrow> Inr (connectSSE sseUrl channelKey s1)))"

text \<open>Time passes without any timer firing.\<close>

definition advance :: "int \<Rightarrow> plugin \<Rightarrow> plugin" where
  "advance ms s = s\<lparr>clock := clock s + max 0 ms\<rparr>"

section \<open>Track events and example payloads\<close>


text \<open>The event \<open>{artist: "A", title: "B", duration: 0, elapsed: 0}\<close> in the provider's
  envelope \<open>pub.data.np.now_playing\<close>.\<close>

definition song_AB :: jsval where
  "song_AB = JObj [(''artist'', JStr ''A''), (''title'', JStr ''B'')]"

definition np_AB :: jsval where
  "np_AB = JObj [(''now_playing'',
             JObj [(''song'', song_AB), (''duration'', JNum 0), (''elapsed'', JNum 0)])]"

definition payload_AB :: jsval where
  "payload_AB = JObj [(''pub'', JObj [(''data'', JObj [(''np'', np_AB)])])]"






section \<open>Connections and timer handles\<close>

text \<open>
  What one request reports, from \<open>connectSSE\<close> to the report that makes the plugin
  schedule a reconnect: the request fails before any response (\<open>Refused\<close>); the response
  has the given status, and nothing follows (\<open>Answered\<close>: a failed connect for a status
  other than 200, an open stream for 200); the response has status 200 and the stream then
  ends (\<open>Closed\<close>) or fails (\<open>Broken\<close>).
\<close>

datatype connection = Refused | Answered int | Closed | Broken

definition reports :: "connection \<Rightarrow> sse_event list" where
  "reports conn =
     (case conn of
        Refused \<Rightarrow> [RequestError]
      | Answered statusCode \<Rightarrow> [Response statusCode]
      | Closed \<Rightarrow> [Response 200, ResponseEnd]
      | Broken \<Rightarrow> [Response 200, ResponseError])"

text \<open>A connect that fails: no response, or a response whose status is not 200. A stream
  that was established and is lost.\<close>

definition failed_connect :: "connection \<Rightarrow> bool" where
  "failed_connect conn =
     (case conn of Refused \<Rightarrow> True | Answered statusCode \<Rightarrow> statusCode \<noteq> 200 | _ \<Rightarrow> False)"

definition stream_lost :: "connection \<Rightarrow> bool" where
  "stream_lost conn = (case conn of Closed \<Rightarrow> True | Broken \<Rightarrow> True | _ \<Rightarrow> False)"

text \<open>The callbacks of one request run on its reports.\<close>

definition connection_reports :: "sse_url \<Rightarrow> string \<Rightarrow> connection \<Rightarrow> plugin \<Rightarrow> plugin" where
  "connection_reports sseUrl channelKey conn s =
     fold (on_sse_event sseUrl channelKey) (reports conn) s"

text \<open>The pending timers that will call \<open>connectSSE\<close>.\<close>

definition is_reconnect :: "timer \<Rightarrow> bool" where
  "is_reconnect t = (case snd (snd t) of ConnectSSECb u c \<Rightarrow> True | _ \<Rightarrow> False)"


text \<open>The timer held in \<open>this.sseReconnectTimer\<close> fires, if it is still pending.\<close>

definition reconnect_fires :: "plugin \<Rightarrow> plugin" where
  "reconnect_fires s =
     (case sseReconnectTimer s of
        None \<Rightarrow> s
      | Some h \<Rightarrow> (case fire h s of Inr s' \<Rightarrow> s' | Inl e \<Rightarrow> s))"

text \<open>
  Consecutive connections: before a connection reports, the pending reconnect, if there is
  one, has fired and opened it; the callbacks of every connection hold the same \<open>sseUrl\<close>
  and \<open>channelKey\<close>.
\<close>

fun connections :: "sse_url \<Rightarrow> string \<Rightarrow> connection list \<Rightarrow> plugin \<Rightarrow> plugin" where
  "connections sseUrl channelKey [] s = s"
| "connections sseUrl channelKey (conn # conns) s =
     connections sseUrl channelKey conns
       (connection_reports sseUrl channelKey conn (reconnect_fires s))"

text \<open>Timer handles are below the next handle to be given out, and the pending reconnects
  are the timers whose handle is in \<open>this.sseReconnectTimer\<close>.\<close>

definition wf_timers :: "plugin \<Rightarrow> bool" where
  "wf_timers s = list_all (\<lambda>t. fst t < nextTimer s) (timers s)"

definition one_reconnect :: "plugin \<Rightarrow> bool" where
  "one_reconnect s =
     list_all (\<lambda>t. is_reconnect t = (sseReconnectTimer s = Some (fst t))) (timers s)"


text \<open>The SSE URL of the channel \<open>radio\<close>; three and ten connects that fail; twelve streams
  that are established and lost.\<close>

definition radio_sse :: sse_url where
  "radio_sse = SseUrl apiHost (JStr ''motherearth'')"

definition three_failures :: "connection list" where
  "three_failures = [Answered 503, Refused, Answered 500]"

definition ten_failures :: "connection list" where
  "ten_failures = [Answered 503, Refused, Refused, Answered 500, Refused,
                   Answered 502, Answered 503, Refused, Refused, Answered 504]"

definition twelve_streams_lost :: "connection list" where
  "twelve_streams_lost = [Closed, Closed, Broken, Closed, Closed, Closed,
                          Broken, Closed, Closed, Closed, Closed, Closed]"

text \<open>The channel \<open>radio\<close> was started, two connects have failed and the second reconnect has
  fired.\<close>

definition after_two_failures :: plugin where
  "after_two_failures =
     reconnect_fires (connections radio_sse ''radio'' [Answered 503, Refused]
                        (startSSE ''radio'' constructor))"

section \<open>Scenarios of the delay scheduler\<close>

text \<open>An MPD that accepts every command.\<close>

definition mpd_ok :: "mpd_cmd \<Rightarrow> jsval option" where
  "mpd_ok c = None"

text \<open>The channel \<open>radio\<close> is playing; the setting \<open>apiDelay\<close> is 3000, which makes a delay
  of 3000 ms.\<close>

definition playing_radio :: plugin where
  "playing_radio =
     snd (clearAddPlayTrack mpd_ok (JStr ''motherearthradio/radio/flac192'')
            (onStart_settings (Some 3000) None constructor))"

text \<open>
  A track event arrives while \<open>radio\<close> plays; \<open>stop()\<close> is called 1000 ms later; the
  event's timer (handle 0, due at 3000 ms) fires.
\<close>

definition stop_before_fire :: "error + plugin" where
  "stop_before_fire =
     bindE (processNowPlayingData payload_AB ''radio'' playing_radio)
       (\<lambda>s1. fire 0 (snd (stop mpd_ok (advance 1000 s1))))"

text \<open>The status and title of every state pushed to the front-end, in order.\<close>

definition observed :: "error + plugin \<Rightarrow> (jsval \<times> jsval) list" where
  "observed r = (case r of Inl e \<Rightarrow> [] | Inr s \<Rightarrow> map (\<lambda>st. (status st, title st)) (pushed s))"

text \<open>
  The plugin starts with the setting \<open>apiDelay\<close> at 3 (seconds) and plays \<open>radio\<close>; a track
  event arrives at time 0; its timer (handle 0) fires.
\<close>

definition event_arrives :: "bool \<Rightarrow> error + plugin" where
  "event_arrives highLatency =
     processNowPlayingData payload_AB ''radio''
       (snd (clearAddPlayTrack mpd_ok (JStr ''motherearthradio/radio/flac192'')
               (onStart_settings (Some 3) (Some highLatency) constructor)))"

definition event_applied :: "bool \<Rightarrow> error + plugin" where
  "event_applied highLatency = bindE (event_arrives highLatency) (fire 0)"

text \<open>The times at which the pending timers are due, and the time and the title of the
  state pushed last.\<close>

definition due_times :: "error + plugin \<Rightarrow> int list" where
  "due_times r = (case r of Inl e \<Rightarrow> [] | Inr s \<Rightarrow> map (\<lambda>t. fst (snd t)) (timers s))"

definition applied_at :: "error + plugin \<Rightarrow> (int \<times> jsval) option" where
  "applied_at r = (case r of Inl e \<Rightarrow> None | Inr s \<Rightarrow> Some (clock s, title (last (pushed s))))"

section \<open>Scenarios of playback\<close>

text \<open>An MPD that rejects the command \<open>stop\<close>.\<close>

definition mpd_stop_fails :: "mpd_cmd \<Rightarrow> jsval option" where
  "mpd_stop_fails c = (if c = MpdStop then Some (JStr ''MPD error'') else None)"

text \<open>\<open>clearAddPlayTrack\<close> of the channel \<open>radio\<close> on a fresh instance, with that MPD.\<close>

definition play_with_failing_transport :: "outcome \<times> plugin" where
  "play_with_failing_transport =
     clearAddPlayTrack mpd_stop_fails (JStr ''motherearthradio/radio/flac192'') constructor"

text \<open>The quality tiers and the keys of the channel table.\<close>

definition quality_tiers :: "string list" where
  "quality_tiers = [''flac192'', ''flac96'', ''aac'']"

definition channel_keys :: "string list" where
  "channel_keys = map fst channels"

text \<open>\<open>clearAddPlayTrack\<close> of a URI that names the channel \<open>nochannel\<close>, and of one that
  names \<open>constructor\<close>.\<close>

definition play_unknown_channel :: "outcome \<times> plugin" where
  "play_unknown_channel =
     clearAddPlayTrack mpd_ok (JStr ''motherearthradio/nochannel/flac192'') constructor"

definition play_inherited_name :: "outcome \<times> plugin" where
  "play_inherited_name =
     clearAddPlayTrack mpd_ok (JStr ''motherearthradio/constructor/flac192'') constructor"

section \<open>The metadata update of the second revision\<close>



section \<open>Scenarios of the decoder\<close>



text \<open>
  A payload in the provider's envelope with the given \<open>song\<close>. A connect frame carrying
  the event A/B and a payload whose song is \<open>null\<close>, and one carrying the event A/B and a
  payload whose song is the empty object; the keep-alive frame \<open>{}\<close>. \<open>parse_frames\<close> is
  \<open>JSON.parse\<close> on three texts: \<open>{}\<close>, and the texts of the two connect frames, written
  \<open>CONNECT\<close> and \<open>CONNECT2\<close>.
\<close>

definition payload_with_song :: "jsval \<Rightarrow> jsval" where
  "payload_with_song song =
     JObj [(''pub'', JObj [(''data'', JObj [(''np'',
       JObj [(''now_playing'',
         JObj [(''song'', song), (''duration'', JNum 0), (''elapsed'', JNum 0)])])])])]"





text \<open>The channel \<open>radio\<close> is playing, with no delay configured.\<close>

definition playing_now :: plugin where
  "playing_now =
     snd (clearAddPlayTrack mpd_ok (JStr ''motherearthradio/radio/flac192'') constructor)"




text \<open>A track event whose artist is the parsed JSON object \<open>{"toString": 1}\<close>, and one whose
  elapsed time is that object.\<close>

definition payload_unprintable :: jsval where
  "payload_unprintable =
     payload_with_song (JObj [(''artist'', JObj [(''toString'', JNum 1)]), (''title'', JStr ''B'')])"

definition payload_elapsed_object :: jsval where
  "payload_elapsed_object =
     JObj [(''np'', JObj [(''now_playing'',
       JObj [(''song'', song_AB), (''duration'', JNum 0),
             (''elapsed'', JObj [(''toString'', JNum 1)])])])]"

section \<open>Properties\<close>

subsection \<open>Reading guarded properties\<close>


lemma getEffectiveDelay_log [simp]: "getEffectiveDelay (log l m s) = getEffectiveDelay s"
  by (simp add: getEffectiveDelay_def log_def)

lemma log_fields [simp]:
  "sseReconnectAttempts (log l m s) = sseReconnectAttempts s"
  "timers (log l m s) = timers s"
  "nextTimer (log l m s) = nextTimer s"
  "clock (log l m s) = clock s"
  "toasts (log l m s) = toasts s"
  "pushed (log l m s) = pushed s"
  "sseReconnectTimer (log l m s) = sseReconnectTimer s"
  "sseRequest (log l m s) = sseRequest s"
  "requests (log l m s) = requests s"
  "currentChannel (log l m s) = currentChannel s"
  "currentQuality (log l m s) = currentQuality s"
  "currentUri (log l m s) = currentUri s"
  "mpdLog (log l m s) = mpdLog s"
  "state (log l m s) = state s"
  "destroyed (log l m s) = destroyed s"
  "trace (log l m s) = trace s"
  "metadataDelay (log l m s) = metadataDelay s"
  "highLatencyMode (log l m s) = highLatencyMode s"
  by (simp_all add: log_def)



lemma seek_of_elapsed_throws:
  "\<not> convertible elapsed \<Longrightarrow> seek_of_elapsed elapsed = Inl TypeError"
  by (cases elapsed) (simp_all add: seek_of_elapsed_def)




lemma updateMetadata_frame:
  "updateMetadata song dur elapsed np s = Inr s' \<Longrightarrow>
   sseReconnectAttempts s' = sseReconnectAttempts s \<and> timers s' = timers s
   \<and> nextTimer s' = nextTimer s \<and> toasts s' = toasts s
   \<and> sseReconnectTimer s' = sseReconnectTimer s \<and> currentChannel s' = currentChannel s
   \<and> logs s' = logs s"
  by (auto simp: updateMetadata_def Let_def bindE_def servicePushState_def
      split: sum.splits if_splits)


subsection \<open>Effective delay\<close>

text \<open>
  C2 at the setting \<open>apiDelay = 3\<close>, a manual delay of 3 seconds (3000 ms). \<open>onStart\<close> stores
  the number of seconds in \<open>metadataDelay\<close> and \<open>getEffectiveDelay\<close> takes the field as
  milliseconds: the effective delay is 3 ms without high-latency mode and 2003 ms with it.
  A track event that arrives at time 0 while \<open>radio\<close> plays gets a timer due at 3 ms
  (2003 ms) and is published, with its title, when that timer fires, not at 3000 ms
  (5000 ms).
\<close>

theorem seconds_taken_as_milliseconds:
  "metadataDelay (onStart_settings (Some 3) (Some False) constructor) = 3
   \<and> getEffectiveDelay (onStart_settings (Some 3) (Some False) constructor) = Ms 3
   \<and> getEffectiveDelay (onStart_settings (Some 3) (Some True) constructor) = Ms 2003
   \<and> due_times (event_arrives False) = [3]
   \<and> applied_at (event_applied False) = Some (3, JStr ''B'')
   \<and> due_times (event_arrives True) = [2003]
   \<and> applied_at (event_applied True) = Some (2003, JStr ''B'')"
  by code_simp


subsection \<open>Delayed events and teardown\<close>

text \<open>
  C1 at a delay of 3000 ms: an event scheduled while \<open>radio\<close> plays is still published,
  with status \<open>play\<close> and its title, when its timer fires after \<open>stop()\<close> was called at
  1000 ms: the front-end sees play, stop, play.
\<close>

theorem stop_does_not_cancel_event: "observed stop_before_fire =
   [(JStr ''play'', JStr ''Radio''), (JStr ''stop'', JUndefined), (JStr ''play'', JStr ''B'')]"
  by code_simp


subsection \<open>Reconnect schedule\<close>

lemma reconnect_delay:
  "n < SSE_MAX_RECONNECT_ATTEMPTS \<Longrightarrow>
   timer_delay (Ms (SSE_RECONNECT_DELAY_MS * int (Suc n))) = SSE_RECONNECT_DELAY_MS * int (Suc n)"
  by (simp add: timer_delay_def TIMEOUT_MAX_def SSE_RECONNECT_DELAY_MS_def
      SSE_MAX_RECONNECT_ATTEMPTS_def)

lemma scheduleSSEReconnect_below:
  "sseReconnectAttempts s < SSE_MAX_RECONNECT_ATTEMPTS \<Longrightarrow>
   scheduleSSEReconnect sseUrl channelKey s =
     s\<lparr>sseReconnectAttempts := Suc (sseReconnectAttempts s),
       logs := logs s @ [(LInfo, MsgReconnecting
                 (SSE_RECONNECT_DELAY_MS * int (Suc (sseReconnectAttempts s)))
                 (Suc (sseReconnectAttempts s)))],
       timers := timers s @ [(nextTimer s,
                 clock s + SSE_RECONNECT_DELAY_MS * int (Suc (sseReconnectAttempts s)),
                 ConnectSSECb sseUrl channelKey)],
       nextTimer := Suc (nextTimer s),
       sseReconnectTimer := Some (nextTimer s)\<rparr>"
  using reconnect_delay [of "sseReconnectAttempts s"]
  by (simp add: scheduleSSEReconnect_def Let_def setTimeout_def log_def)

lemma scheduleSSEReconnect_max:
  "SSE_MAX_RECONNECT_ATTEMPTS \<le> sseReconnectAttempts s \<Longrightarrow>
   scheduleSSEReconnect sseUrl channelKey s =
     s\<lparr>logs := logs s @ [(LError, MsgMaxReconnect)],
       toasts := toasts s @ [(''error'', ''ERROR_STREAM_SERVER'')],
       trace := trace s @ [Toasted ''error'' ''ERROR_STREAM_SERVER'']\<rparr>"
  by (simp add: scheduleSSEReconnect_def log_def errorToast_def)

lemma failure_is_schedule:
  "ev \<noteq> Response 200 \<Longrightarrow>
   \<exists>l m. on_sse_event sseUrl channelKey ev s = scheduleSSEReconnect sseUrl channelKey (log l m s)"
  by (cases ev) (auto simp: on_sse_event_def)

lemma failed_connect_event:
  "failed_connect conn \<Longrightarrow>
   \<exists>ev. ev \<noteq> Response 200 \<and> connection_reports u c conn s = on_sse_event u c ev s"
  by (cases conn) (auto simp: failed_connect_def connection_reports_def reports_def)


lemma fire_frame:
  "fire h s = Inr s' \<Longrightarrow>
   sseReconnectAttempts s' = sseReconnectAttempts s \<and> nextTimer s' = nextTimer s
   \<and> toasts s' = toasts s"
  by (auto simp: fire_def Let_def connectSSE_def split: list.splits callback.splits
      dest!: updateMetadata_frame)

lemma reconnect_fires_frame:
  "sseReconnectAttempts (reconnect_fires s) = sseReconnectAttempts s
   \<and> nextTimer (reconnect_fires s) = nextTimer s
   \<and> toasts (reconnect_fires s) = toasts s"
  by (auto simp: reconnect_fires_def split: option.splits sum.splits dest: fire_frame)

lemma scheduleSSEReconnect_mono:
  "sseReconnectAttempts s \<le> sseReconnectAttempts (scheduleSSEReconnect u c s)"
  by (cases "sseReconnectAttempts s < SSE_MAX_RECONNECT_ATTEMPTS")
     (simp_all add: scheduleSSEReconnect_below scheduleSSEReconnect_max)

lemma failure_arms:
  assumes f: "ev \<noteq> Response 200"
  shows "sseReconnectAttempts (on_sse_event u c ev s) =
           (if sseReconnectAttempts s < SSE_MAX_RECONNECT_ATTEMPTS
            then Suc (sseReconnectAttempts s) else sseReconnectAttempts s)
       \<and> nextTimer (on_sse_event u c ev s) =
           (if sseReconnectAttempts s < SSE_MAX_RECONNECT_ATTEMPTS
            then Suc (nextTimer s) else nextTimer s)"
proof -
  obtain l m where e: "on_sse_event u c ev s = scheduleSSEReconnect u c (log l m s)"
    using failure_is_schedule [OF f] by blast
  show ?thesis
    by (cases "sseReconnectAttempts s < SSE_MAX_RECONNECT_ATTEMPTS")
       (simp_all add: e scheduleSSEReconnect_below scheduleSSEReconnect_max)
qed

lemma failed_connects_armed:
  "list_all failed_connect conns \<Longrightarrow> sseReconnectAttempts s \<le> SSE_MAX_RECONNECT_ATTEMPTS \<Longrightarrow>
     sseReconnectAttempts (connections u c conns s) =
       min SSE_MAX_RECONNECT_ATTEMPTS (sseReconnectAttempts s + length conns)
     \<and> nextTimer (connections u c conns s) =
         nextTimer s + (min SSE_MAX_RECONNECT_ATTEMPTS (sseReconnectAttempts s + length conns)
                          - sseReconnectAttempts s)"
proof (induction conns arbitrary: s)
  case Nil
  then show ?case by simp
next
  case (Cons conn conns)
  let ?s1 = "connection_reports u c conn (reconnect_fires s)"
  from Cons.prems have f: "failed_connect conn" and fs: "list_all failed_connect conns"
    by simp_all
  obtain ev where ev: "ev \<noteq> Response 200"
    and e: "?s1 = on_sse_event u c ev (reconnect_fires s)"
    using failed_connect_event [OF f] by blast
  note st = failure_arms [OF ev, of u c "reconnect_fires s"]
  have a1: "sseReconnectAttempts ?s1 =
      min SSE_MAX_RECONNECT_ATTEMPTS (Suc (sseReconnectAttempts s))"
    using st Cons.prems(2) by (auto simp: e reconnect_fires_frame)
  have n1: "nextTimer ?s1 = nextTimer s
      + (min SSE_MAX_RECONNECT_ATTEMPTS (Suc (sseReconnectAttempts s)) - sseReconnectAttempts s)"
    using st Cons.prems(2) by (auto simp: e reconnect_fires_frame)
  have le: "sseReconnectAttempts ?s1 \<le> SSE_MAX_RECONNECT_ATTEMPTS" using a1 by simp
  note ih = Cons.IH [OF fs le]
  show ?case using ih Cons.prems(2) by (auto simp: a1 n1 min_def)
qed





lemma fresh_inv: "wf_timers (startSSE ''radio'' constructor) \<and>
   one_reconnect (startSSE ''radio'' constructor) \<and>
   sseReconnectAttempts (startSSE ''radio'' constructor) = 0 \<and>
   nextTimer (startSSE ''radio'' constructor) = 0 \<and>
   toasts (startSSE ''radio'' constructor) = [] \<and>
   timers (startSSE ''radio'' constructor) = [] \<and>
   clock (startSSE ''radio'' constructor) = 0"
  by (simp add: startSSE_def stopSSE_def constructor_def log_def Let_def obj_get_def
      channels_def channel_entry_def connectSSE_def wf_timers_def one_reconnect_def)





lemma streak_facts:
  "list_all failed_connect three_failures" "length three_failures = 3"
  "list_all failed_connect ten_failures" "length ten_failures = 10"
  "list_all stream_lost twelve_streams_lost" "length twelve_streams_lost = 12"
  "failed_connect Refused" "failed_connect (Answered 500)" "stream_lost Closed"
  by (simp_all add: three_failures_def ten_failures_def twelve_streams_lost_def
      failed_connect_def stream_lost_def)


subsection \<open>Failure streaks and timer handles\<close>

lemma connections_snoc:
  "connections u c (conns @ [conn]) s =
     connection_reports u c conn (reconnect_fires (connections u c conns s))"
  by (induction conns arbitrary: s) simp_all




subsection \<open>The attempt counter\<close>

text \<open>
  C7. Within a failure streak the attempt counter never decreases: every report of a
  request other than a response with status 200 leaves it or raises it, so does
  \<open>scheduleSSEReconnect\<close>, and the firing of the reconnect timer leaves it. A response with
  status 200 sets it to 0. After N consecutive connects that failed (no response, or a
  status other than 200), from a count of 0 and for N below the maximum, the counter is N,
  and it is 0 right after the next connect is answered with status 200.
\<close>

theorem attempts_monotone_reset:
  "(ev \<noteq> Response 200 \<longrightarrow>
      sseReconnectAttempts s \<le> sseReconnectAttempts (on_sse_event u c ev s))
   \<and> sseReconnectAttempts s \<le> sseReconnectAttempts (scheduleSSEReconnect u c s)
   \<and> sseReconnectAttempts (reconnect_fires s) = sseReconnectAttempts s
   \<and> sseReconnectAttempts (on_sse_event u c (Response 200) s) = 0
   \<and> (list_all failed_connect conns \<and> sseReconnectAttempts s = 0
        \<and> length conns < SSE_MAX_RECONNECT_ATTEMPTS \<longrightarrow>
        sseReconnectAttempts (connections u c conns s) = length conns
        \<and> sseReconnectAttempts (connections u c (conns @ [Answered 200]) s) = 0)"
proof -
  have a: "ev \<noteq> Response 200 \<longrightarrow>
      sseReconnectAttempts s \<le> sseReconnectAttempts (on_sse_event u c ev s)"
  proof
    assume "ev \<noteq> Response 200"
    then obtain l m where "on_sse_event u c ev s = scheduleSSEReconnect u c (log l m s)"
      using failure_is_schedule by blast
    then show "sseReconnectAttempts s \<le> sseReconnectAttempts (on_sse_event u c ev s)"
      using scheduleSSEReconnect_mono [of "log l m s" u c] by simp
  qed
  have b: "\<And>s'. sseReconnectAttempts (on_sse_event u c (Response 200) s') = 0"
    by (simp add: on_sse_event_def)
  have d: "list_all failed_connect conns \<and> sseReconnectAttempts s = 0
        \<and> length conns < SSE_MAX_RECONNECT_ATTEMPTS \<longrightarrow>
        sseReconnectAttempts (connections u c conns s) = length conns"
    using failed_connects_armed [of conns s u c] by auto
  have e: "sseReconnectAttempts (connections u c (conns @ [Answered 200]) s) = 0"
    by (simp add: connections_snoc connection_reports_def reports_def b)
  from a b d e show ?thesis
    by (simp add: scheduleSSEReconnect_mono reconnect_fires_frame)
qed

theorem attempts_monotone_reset_witness:
  "RequestError \<noteq> Response 200
   \<and> sseReconnectAttempts after_two_failures
       \<le> sseReconnectAttempts (on_sse_event radio_sse ''radio'' RequestError after_two_failures)
   \<and> list_all failed_connect three_failures
   \<and> sseReconnectAttempts (startSSE ''radio'' constructor) = 0
   \<and> length three_failures < SSE_MAX_RECONNECT_ATTEMPTS
   \<and> sseReconnectAttempts
        (connections radio_sse ''radio'' three_failures (startSSE ''radio'' constructor)) = 3
   \<and> sseReconnectAttempts
        (connections radio_sse ''radio'' (three_failures @ [Answered 200])
           (startSSE ''radio'' constructor)) = 0"
proof -
  have n: "length three_failures < SSE_MAX_RECONNECT_ATTEMPTS"
    by (simp add: streak_facts SSE_MAX_RECONNECT_ATTEMPTS_def)
  from fresh_inv have z: "sseReconnectAttempts (startSSE ''radio'' constructor) = 0" by simp
  have ne: "RequestError \<noteq> Response 200" by simp
  note t = attempts_monotone_reset [of RequestError _ radio_sse "''radio''"]
  have m: "sseReconnectAttempts after_two_failures
       \<le> sseReconnectAttempts (on_sse_event radio_sse ''radio'' RequestError after_two_failures)"
    using t [of after_two_failures, THEN conjunct1, THEN mp, OF ne] .
  have s: "sseReconnectAttempts
        (connections radio_sse ''radio'' three_failures (startSSE ''radio'' constructor)) = 3
   \<and> sseReconnectAttempts
        (connections radio_sse ''radio'' (three_failures @ [Answered 200])
           (startSSE ''radio'' constructor)) = 0"
    using t [of "startSSE ''radio'' constructor" three_failures, THEN conjunct2, THEN conjunct2,
        THEN conjunct2, THEN conjunct2, THEN mp] streak_facts(1) z n
    by (simp add: streak_facts)
  from ne m streak_facts(1) z n s show ?thesis by blast
qed

subsection \<open>Exhausted retries\<close>






subsection \<open>Playback: the transport sequence and the connection manager\<close>

lemma stopSSE_fields [simp]:
  "currentChannel (stopSSE s) = currentChannel s"
  "currentQuality (stopSSE s) = currentQuality s"
  "currentUri (stopSSE s) = currentUri s"
  "pushed (stopSSE s) = pushed s"
  "clock (stopSSE s) = clock s"
  "nextTimer (stopSSE s) = nextTimer s"
  "sseReconnectTimer (stopSSE s) = None"
  "sseRequest (stopSSE s) = None"
  "mpdLog (stopSSE s) = mpdLog s"
  "requests (stopSSE s) = requests s"
  "toasts (stopSSE s) = toasts s"
  "metadataDelay (stopSSE s) = metadataDelay s"
  "highLatencyMode (stopSSE s) = highLatencyMode s"
  by (simp_all add: stopSSE_def Let_def clearTimeout_def log_def split: option.splits)

lemma stopSSE_trace:
  "trace (stopSSE s) =
     trace s @ (case sseRequest s of None \<Rightarrow> [] | Some r \<Rightarrow> [Destroyed r])"
  by (simp add: stopSSE_def Let_def clearTimeout_def log_def split: option.splits)

lemma sendAll_eq:
  "sendAll mpd cs s =
     (first_rejection mpd cs,
      s\<lparr>mpdLog := mpdLog s @ issued mpd cs, trace := trace s @ map Sent (issued mpd cs)\<rparr>)"
  by (induction cs arbitrary: s) (auto simp: sendMpd_def split: option.splits)

lemma getStreamUrl_truthy_channel:
  "getStreamUrl ch q = Inr url \<Longrightarrow> truthy url \<Longrightarrow> truthy (obj_get channels ch)"
  by (auto simp: getStreamUrl_def Let_def split: if_splits)

lemma startSSE_valid:
  "truthy (obj_get channels ch) \<Longrightarrow>
   requests (startSSE ch s) =
     requests s @ [(SseUrl apiHost (js_get_opt (obj_get channels ch) ''shortcode''), ch)]
   \<and> trace (startSSE ch s) =
       trace (stopSSE s) @ [Opened (SseUrl apiHost (js_get_opt (obj_get channels ch) ''shortcode'')) ch]
   \<and> sseRequest (startSSE ch s) = Some (length (requests s))
   \<and> pushed (startSSE ch s) = pushed s \<and> mpdLog (startSSE ch s) = mpdLog s
   \<and> currentChannel (startSSE ch s) = currentChannel s
   \<and> currentQuality (startSSE ch s) = currentQuality s"
  by (simp add: startSSE_def Let_def connectSSE_def)

lemma issued_prefix: "issued mpd cs = take (length (issued mpd cs)) cs"
  by (induction cs) (auto split: option.splits)

lemma issued_all: "first_rejection mpd cs = None \<Longrightarrow> issued mpd cs = cs"
  by (induction cs) (auto split: option.splits)

lemma clearAddPlayTrack_started:
  assumes c: "getChannelFromUri track_uri = Inr ch"
    and q: "getQualityFromUri track_uri = Inr q"
    and u: "getStreamUrl ch q = Inr streamUrl" and t: "truthy streamUrl"
  shows "trace (snd (clearAddPlayTrack mpd track_uri s)) =
           trace (stopSSE s)
           @ [Opened (SseUrl apiHost (js_get_opt (obj_get channels ch) ''shortcode'')) ch]
           @ map Sent (issued mpd (transport_sequence streamUrl))
           @ (case first_rejection mpd (transport_sequence streamUrl) of
                None \<Rightarrow> [Pushed (state (snd (clearAddPlayTrack mpd track_uri s)))]
              | Some err \<Rightarrow> [])
       \<and> sseRequest (snd (clearAddPlayTrack mpd track_uri s)) = Some (length (requests s))
       \<and> mpdLog (snd (clearAddPlayTrack mpd track_uri s)) =
           mpdLog s @ issued mpd (transport_sequence streamUrl)
       \<and> issued mpd (transport_sequence streamUrl) =
           take (length (issued mpd (transport_sequence streamUrl))) (transport_sequence streamUrl)
       \<and> (case first_rejection mpd (transport_sequence streamUrl) of
            None \<Rightarrow>
              fst (clearAddPlayTrack mpd track_uri s) = Resolved
              \<and> issued mpd (transport_sequence streamUrl) = transport_sequence streamUrl
              \<and> artist (state (snd (clearAddPlayTrack mpd track_uri s))) = JStr ''Connecting...''
          | Some err \<Rightarrow>
              fst (clearAddPlayTrack mpd track_uri s) =
                (if convertible err then Rejected err else Pending))"
proof -
  have tc: "truthy (obj_get channels ch)" using u t by (rule getStreamUrl_truthy_channel)
  note st = startSSE_valid [OF tc]
  have p: "issued mpd (transport_sequence streamUrl) =
           take (length (issued mpd (transport_sequence streamUrl))) (transport_sequence streamUrl)"
    by (rule issued_prefix)
  show ?thesis
  proof (cases "first_rejection mpd (transport_sequence streamUrl)")
    case None
    then show ?thesis
      using p issued_all [OF None]
      by (simp add: clearAddPlayTrack_def c q u t Let_def sendAll_eq st servicePushState_def
          connecting_state_def transport_sequence_def stopSSE_trace
          del: sendAll.simps issued.simps first_rejection.simps)
  next
    case (Some err)
    then show ?thesis
      using p
      by (simp add: clearAddPlayTrack_def c q u t Let_def sendAll_eq st stopSSE_trace
          transport_sequence_def del: sendAll.simps issued.simps first_rejection.simps)
  qed
qed

text \<open>
  C4 as stated fails: when the first transport command is rejected, \<open>clearAddPlayTrack\<close>
  rejects with the transport's error after \<open>stop\<close> alone was sent; the SSE request was
  opened before \<open>stop\<close> was sent and is still open (not destroyed).
\<close>

theorem sse_started_despite_transport_failure:
  "fst play_with_failing_transport = Rejected (JStr ''MPD error'')
   \<and> trace (snd play_with_failing_transport) = [Opened radio_sse ''radio'', Sent MpdStop]
   \<and> sseRequest (snd play_with_failing_transport) = Some 0
   \<and> destroyed (snd play_with_failing_transport) = []"
  by code_simp

text \<open>
  C4, amended (the two revisions of \<open>part_000\<close>). For a URI that resolves to a stream URL,
  the calls \<open>clearAddPlayTrack\<close> makes are, in this order: the teardown of the previous
  SSE request if there is one, the opening of the SSE request of the channel, the transport
  commands \<open>stop\<close>, \<open>clear\<close>, \<open>add\<close>, \<open>play\<close>, each sent after the one before it resolved and
  none after the first that is rejected, and, when all four resolved, the push of the
  provisional state (artist \<open>Connecting...\<close>). The SSE request stays open whatever the
  outcome of the transport. The call resolves when all four commands resolved; at the
  first rejection it rejects with the reason of the transport, when that reason can be
  converted to text.
\<close>

theorem transport_after_sse:
  assumes c: "getChannelFromUri track_uri = Inr ch"
    and q: "getQualityFromUri track_uri = Inr q"
    and u: "getStreamUrl ch q = Inr streamUrl" and t: "truthy streamUrl"
  shows "trace (snd (clearAddPlayTrack mpd track_uri s)) =
           trace s
           @ (case sseRequest s of None \<Rightarrow> [] | Some r \<Rightarrow> [Destroyed r])
           @ [Opened (SseUrl apiHost (js_get_opt (obj_get channels ch) ''shortcode'')) ch]
           @ map Sent (issued mpd (transport_sequence streamUrl))
           @ (case first_rejection mpd (transport_sequence streamUrl) of
                None \<Rightarrow> [Pushed (state (snd (clearAddPlayTrack mpd track_uri s)))]
              | Some err \<Rightarrow> [])
       \<and> sseRequest (snd (clearAddPlayTrack mpd track_uri s)) = Some (length (requests s))
       \<and> transport_sequence streamUrl = [MpdStop, MpdClear, MpdAdd streamUrl, MpdPlay]
       \<and> issued mpd (transport_sequence streamUrl) =
           take (length (issued mpd (transport_sequence streamUrl))) (transport_sequence streamUrl)
       \<and> (case first_rejection mpd (transport_sequence streamUrl) of
            None \<Rightarrow>
              fst (clearAddPlayTrack mpd track_uri s) = Resolved
              \<and> issued mpd (transport_sequence streamUrl) = transport_sequence streamUrl
              \<and> artist (state (snd (clearAddPlayTrack mpd track_uri s))) = JStr ''Connecting...''
          | Some err \<Rightarrow>
              fst (clearAddPlayTrack mpd track_uri s) =
                (if convertible err then Rejected err else Pending))"
  using clearAddPlayTrack_started [OF c q u t, of mpd s]
  by (simp add: stopSSE_trace transport_sequence_def del: issued.simps first_rejection.simps)

lemma radio_uri_facts:
  "getChannelFromUri (JStr ''motherearthradio/radio/flac192'') = Inr ''radio''"
  "getQualityFromUri (JStr ''motherearthradio/radio/flac192'') = Inr ''flac192''"
  "getStreamUrl ''radio'' ''flac192'' =
     Inr (JStr ''https://motherearth.streamserver24.com/listen/motherearth/motherearth'')"
  by code_simp+

theorem transport_after_sse_witness:
  "getChannelFromUri (JStr ''motherearthradio/radio/flac192'') = Inr ''radio''
   \<and> getQualityFromUri (JStr ''motherearthradio/radio/flac192'') = Inr ''flac192''
   \<and> getStreamUrl ''radio'' ''flac192'' =
       Inr (JStr ''https://motherearth.streamserver24.com/listen/motherearth/motherearth'')
   \<and> truthy (JStr ''https://motherearth.streamserver24.com/listen/motherearth/motherearth'')
   \<and> fst (clearAddPlayTrack mpd_ok (JStr ''motherearthradio/radio/flac192'') constructor)
       = Resolved
   \<and> trace (snd (clearAddPlayTrack mpd_ok (JStr ''motherearthradio/radio/flac192'')
        constructor)) =
       [Opened radio_sse ''radio'', Sent MpdStop, Sent MpdClear,
        Sent (MpdAdd
          (JStr ''https://motherearth.streamserver24.com/listen/motherearth/motherearth'')),
        Sent MpdPlay,
        Pushed (state (snd (clearAddPlayTrack mpd_ok (JStr ''motherearthradio/radio/flac192'')
          constructor)))]
   \<and> sseRequest (snd (clearAddPlayTrack mpd_ok (JStr ''motherearthradio/radio/flac192'')
        constructor)) = Some 0"
proof -
  have t: "truthy (JStr ''https://motherearth.streamserver24.com/listen/motherearth/motherearth'')"
    by simp
  have r: "first_rejection mpd_ok (transport_sequence
      (JStr ''https://motherearth.streamserver24.com/listen/motherearth/motherearth'')) = None"
    "issued mpd_ok (transport_sequence
      (JStr ''https://motherearth.streamserver24.com/listen/motherearth/motherearth'')) =
     transport_sequence
      (JStr ''https://motherearth.streamserver24.com/listen/motherearth/motherearth'')"
    by (simp_all add: transport_sequence_def mpd_ok_def)
  have e: "trace constructor = []" "requests constructor = []" "sseRequest constructor = None"
    by (simp_all add: constructor_def)
  have sc: "SseUrl apiHost (js_get_opt (obj_get channels ''radio'') ''shortcode'') = radio_sse"
    by code_simp
  note th = transport_after_sse [OF radio_uri_facts t, of mpd_ok constructor, unfolded r e sc]
  show ?thesis
    using th by (simp add: radio_uri_facts transport_sequence_def)
qed


subsection \<open>Resolving the stream URL\<close>

lemma channel_keys_eq: "channel_keys = [''radio'', ''klassik'', ''instrumental'', ''jazz'']"
  by (simp add: channel_keys_def channels_def)

lemma getStreamUrl_registry:
  "K \<in> set channel_keys \<Longrightarrow> Q \<in> set quality_tiers \<Longrightarrow>
   \<exists>url. getStreamUrl K Q = Inr (JStr url) \<and> url \<noteq> []"
  by (auto simp: channel_keys_eq quality_tiers_def getStreamUrl_def obj_get_def channels_def
      channel_entry_def bindE_def Let_def)

lemma getStreamUrl_default_tier:
  "K \<in> set channel_keys \<Longrightarrow> Q \<notin> set quality_tiers \<Longrightarrow> inherited Q = JUndefined \<Longrightarrow>
   getStreamUrl K Q = getStreamUrl K ''flac192''"
  by (auto simp: channel_keys_eq quality_tiers_def getStreamUrl_def obj_get_def channels_def
      channel_entry_def bindE_def Let_def)

lemma obj_get_unknown:
  "K \<notin> set (map fst kvs) \<Longrightarrow> obj_get kvs K = inherited K"
  by (simp add: obj_get_def map_of_eq_None_iff [THEN iffD2])

lemma getStreamUrl_unknown:
  "K \<notin> set channel_keys \<Longrightarrow> inherited K = JUndefined \<Longrightarrow> getStreamUrl K Q = Inr JNull"
  by (simp add: getStreamUrl_def channel_keys_def obj_get_unknown)

lemma shortcode_match_key:
  "shortcode_match cs u = Some k \<Longrightarrow> k \<in> set (map fst cs)"
  by (induction cs u rule: shortcode_match.induct)
     (auto split: sum.splits jsval.splits if_splits)

lemma obj_get_channels_cases:
  "truthy (obj_get channels k) \<Longrightarrow> k \<notin> set channel_keys \<Longrightarrow> inherited k \<noteq> JUndefined"
  by (auto simp: channel_keys_def obj_get_unknown)

lemma own_channel_truthy: "k \<in> set channel_keys \<Longrightarrow> truthy (obj_get channels k)"
  by (auto simp: channel_keys_eq obj_get_def channels_def channel_entry_def)

lemma getChannelFromUri_string:
  "\<exists>k. getChannelFromUri (JStr u) = Inr k \<and> truthy (obj_get channels k)
      \<and> (k \<in> set channel_keys \<or> inherited k \<noteq> JUndefined)"
proof (cases "u = []")
  case True
  then show ?thesis
    by (simp add: getChannelFromUri_def own_channel_truthy channel_keys_eq)
next
  case False
  let ?parts = "split_str CHR ''/'' u"
  show ?thesis
  proof (cases "hd ?parts = ''motherearthradio'' \<and> length ?parts \<ge> 2
                 \<and> truthy (obj_get channels (?parts ! 1))")
    case True
    then have "getChannelFromUri (JStr u) = Inr (?parts ! 1)"
      using False by (simp add: getChannelFromUri_def Let_def)
    then show ?thesis using True obj_get_channels_cases by blast
  next
    case nf: False
    show ?thesis
    proof (cases "shortcode_match channels u")
      case None
      then have "getChannelFromUri (JStr u) = Inr ''radio''"
        using False nf by (auto simp: getChannelFromUri_def Let_def)
      then show ?thesis by (simp add: own_channel_truthy channel_keys_eq)
    next
      case (Some k)
      then have "getChannelFromUri (JStr u) = Inr k"
        using False nf by (auto simp: getChannelFromUri_def Let_def)
      moreover have "k \<in> set channel_keys"
        using shortcode_match_key [OF Some] by (simp add: channel_keys_def)
      ultimately show ?thesis by (simp add: own_channel_truthy)
    qed
  qed
qed

lemma getQualityFromUri_string:
  "\<exists>q. getQualityFromUri (JStr u) = Inr q \<and> q \<in> set quality_tiers"
  by (auto simp: getQualityFromUri_def Let_def quality_tiers_def)

text \<open>
  C9, amended. For a key \<open>K\<close> of the channel table and a tier \<open>Q\<close> of \<open>flac192\<close>, \<open>flac96\<close>,
  \<open>aac\<close>, \<open>getStreamUrl\<close> gives a non-empty URL; for another \<open>Q\<close> that names no inherited
  property it gives the \<open>flac192\<close> URL. For a \<open>K\<close> that is no key of the table and names no
  inherited property it gives \<open>null\<close>. At play time a string URI is never rejected for its
  channel: \<open>getChannelFromUri\<close> gives a key of the table (or an inherited property name),
  \<open>getQualityFromUri\<close> gives a tier, and for a key of the table the transport sequence
  for its URL is sent, starting with \<open>stop\<close>.
\<close>

theorem stream_url_resolution:
  "(K \<in> set channel_keys \<and> Q \<in> set quality_tiers \<longrightarrow>
      (\<exists>url. getStreamUrl K Q = Inr (JStr url) \<and> url \<noteq> []))
   \<and> (K \<in> set channel_keys \<and> Q \<notin> set quality_tiers \<and> inherited Q = JUndefined \<longrightarrow>
        getStreamUrl K Q = getStreamUrl K ''flac192'')
   \<and> (K \<notin> set channel_keys \<and> inherited K = JUndefined \<longrightarrow> getStreamUrl K Q = Inr JNull)
   \<and> (\<exists>k q. getChannelFromUri (JStr u) = Inr k \<and> getQualityFromUri (JStr u) = Inr q
          \<and> q \<in> set quality_tiers
          \<and> (k \<in> set channel_keys \<longrightarrow>
               (\<exists>url. url \<noteq> [] \<and> getStreamUrl k q = Inr (JStr url)
                  \<and> currentChannel (snd (clearAddPlayTrack mpd (JStr u) s)) = Some k
                  \<and> mpdLog (snd (clearAddPlayTrack mpd (JStr u) s)) =
                      mpdLog s @ issued mpd (transport_sequence (JStr url))
                  \<and> hd (issued mpd (transport_sequence (JStr url))) = MpdStop))
          \<and> (k \<notin> set channel_keys \<longrightarrow> inherited k \<noteq> JUndefined))"
proof -
  obtain k where k: "getChannelFromUri (JStr u) = Inr k"
    and kc: "k \<in> set channel_keys \<or> inherited k \<noteq> JUndefined"
    using getChannelFromUri_string by blast
  obtain q where q: "getQualityFromUri (JStr u) = Inr q" and qt: "q \<in> set quality_tiers"
    using getQualityFromUri_string by blast
  have play: "k \<in> set channel_keys \<longrightarrow>
               (\<exists>url. url \<noteq> [] \<and> getStreamUrl k q = Inr (JStr url)
                  \<and> currentChannel (snd (clearAddPlayTrack mpd (JStr u) s)) = Some k
                  \<and> mpdLog (snd (clearAddPlayTrack mpd (JStr u) s)) =
                      mpdLog s @ issued mpd (transport_sequence (JStr url))
                  \<and> hd (issued mpd (transport_sequence (JStr url))) = MpdStop)"
  proof
    assume kk: "k \<in> set channel_keys"
    then obtain url where url: "getStreamUrl k q = Inr (JStr url)" "url \<noteq> []"
      using getStreamUrl_registry qt by blast
    then have t: "truthy (JStr url)" by simp
    have cc: "currentChannel (snd (clearAddPlayTrack mpd (JStr u) s)) = Some k"
      using own_channel_truthy [OF kk]
      by (simp add: clearAddPlayTrack_def k q url t Let_def sendAll_eq startSSE_valid
          servicePushState_def del: sendAll.simps split: option.splits)
    have "hd (issued mpd (transport_sequence (JStr url))) = MpdStop"
      by (simp add: transport_sequence_def)
    with clearAddPlayTrack_started [OF k q url(1) t, of mpd s] url cc
    show "\<exists>url. url \<noteq> [] \<and> getStreamUrl k q = Inr (JStr url)
                  \<and> currentChannel (snd (clearAddPlayTrack mpd (JStr u) s)) = Some k
                  \<and> mpdLog (snd (clearAddPlayTrack mpd (JStr u) s)) =
                      mpdLog s @ issued mpd (transport_sequence (JStr url))
                  \<and> hd (issued mpd (transport_sequence (JStr url))) = MpdStop"
      by blast
  qed
  have a: "K \<in> set channel_keys \<and> Q \<in> set quality_tiers \<longrightarrow>
      (\<exists>url. getStreamUrl K Q = Inr (JStr url) \<and> url \<noteq> [])"
    using getStreamUrl_registry by blast
  have b: "K \<in> set channel_keys \<and> Q \<notin> set quality_tiers \<and> inherited Q = JUndefined \<longrightarrow>
        getStreamUrl K Q = getStreamUrl K ''flac192''"
    using getStreamUrl_default_tier by blast
  have c: "K \<notin> set channel_keys \<and> inherited K = JUndefined \<longrightarrow> getStreamUrl K Q = Inr JNull"
    using getStreamUrl_unknown by blast
  from a b c k q qt kc play show ?thesis by blast
qed

text \<open>
  C9 as stated fails: \<open>getStreamUrl\<close> gives \<open>null\<close> for the unknown key \<open>nochannel\<close>, but
  \<open>clearAddPlayTrack\<close> of a URI naming it resolves, playing the channel \<open>radio\<close>.
\<close>

theorem unknown_channel_plays_radio:
  "getStreamUrl ''nochannel'' ''flac192'' = Inr JNull
   \<and> fst play_unknown_channel = Resolved
   \<and> currentChannel (snd play_unknown_channel) = Some ''radio''
   \<and> mpdLog (snd play_unknown_channel) =
       [MpdStop, MpdClear,
        MpdAdd (JStr ''https://motherearth.streamserver24.com/listen/motherearth/motherearth''),
        MpdPlay]"
  by code_simp

text \<open>
  C10 at the URI \<open>motherearthradio/constructor/flac192\<close>: \<open>this.channels['constructor']\<close> is
  the inherited \<open>Object\<close> function, so \<open>getChannelFromUri\<close> returns \<open>constructor\<close>, which is
  no key of the channel table; \<open>getStreamUrl\<close> then reads \<open>streams[quality]\<close> of \<open>undefined\<close>
  and \<open>clearAddPlayTrack\<close> throws a TypeError.
\<close>

theorem inherited_name_taken_for_channel:
  "getChannelFromUri (JStr ''motherearthradio/constructor/flac192'') = Inr ''constructor''
   \<and> ''constructor'' \<notin> set channel_keys
   \<and> getQualityFromUri (JStr ''motherearthradio/constructor/flac192'') = Inr ''flac192''
   \<and> getStreamUrl ''constructor'' ''flac192'' = Inl TypeError
   \<and> fst play_inherited_name = Thrown TypeError
   \<and> currentChannel (snd play_inherited_name) = Some ''constructor''
   \<and> mpdLog (snd play_inherited_name) = []"
  by code_simp

lemma witness_values:
  "''jazz'' \<in> set channel_keys" "''aac'' \<in> set quality_tiers"
  "''mp3'' \<notin> set quality_tiers" "inherited ''mp3'' = JUndefined"
  "''nochannel'' \<notin> set channel_keys" "inherited ''nochannel'' = JUndefined"
  by code_simp+

theorem stream_url_resolution_witness:
  "''jazz'' \<in> set channel_keys \<and> ''aac'' \<in> set quality_tiers
   \<and> ''mp3'' \<notin> set quality_tiers \<and> inherited ''mp3'' = JUndefined
   \<and> ''nochannel'' \<notin> set channel_keys \<and> inherited ''nochannel'' = JUndefined
   \<and> (\<exists>url. getStreamUrl ''jazz'' ''aac'' = Inr (JStr url) \<and> url \<noteq> [])
   \<and> getStreamUrl ''jazz'' ''mp3'' = getStreamUrl ''jazz'' ''flac192''
   \<and> getStreamUrl ''nochannel'' ''aac'' = Inr JNull"
  using stream_url_resolution [of "''jazz''" "''aac''" "''x''" mpd_ok constructor]
    stream_url_resolution [of "''jazz''" "''mp3''" "''x''" mpd_ok constructor]
    stream_url_resolution [of "''nochannel''" "''aac''" "''x''" mpd_ok constructor]
    witness_values
  by blast

subsection \<open>Defaults of the published fields\<close>


text \<open>
  Field extraction can fail: an artist or a title that is the parsed JSON object
  \<open>{"toString": 1}\<close> makes the log line of \<open>processNowPlayingData\<close> throw, and such an
  elapsed time makes the product in \<open>updateMetadata\<close> throw.
\<close>

lemma unconvertible_field_throws:
  "processNowPlayingData payload_unprintable ''radio'' playing_now = Inl TypeError"
  "processNowPlayingData payload_elapsed_object ''radio'' playing_now = Inl TypeError"
  by code_simp+











subsection \<open>Frames\<close>










text \<open>
  An element whose artist cannot be converted ends the decoding of the array: the call
  throws, and the event A/B that follows it in the array is not decoded.
\<close>

lemma unconvertible_element_ends_decoding:
  "processItems [payload_unprintable, payload_AB] ''radio'' playing_now = Inl TypeError"
  by code_simp




end
